theory Spec2Isabelle
  imports Main "HOL-Library.Word"
begin

section \<open>The TUN/TAP interface class\<close>

text \<open>
  A shallow embedding of \<^verbatim>\<open>sdr_network::network::TunTapInterface\<close>
  (\<^verbatim>\<open>include/sdr-network/network/tun_tap_interface.h\<close> and
  \<^verbatim>\<open>src/network/tun_tap_interface.cpp\<close>, the Linux branch of every
  \<^verbatim>\<open>#ifdef __linux__\<close>).

  Each member function becomes a function from the object (a record of the private
  fields) to the updated object, its return value and the list of effects it had on the
  outside world, in program order. What the kernel answers to a system call is an
  argument of the function. Field names drop the trailing underscore of the source
  (\<^verbatim>\<open>fd_\<close> is \<open>fd\<close>), which Isabelle does not accept in a name.
\<close>

subsection \<open>Data\<close>

type_synonym uint8_t = "8 word"
type_synonym uint64_t = "64 word"

text \<open>\<^verbatim>\<open>std::vector<uint8_t>\<close>\<close>

type_synonym packet = "uint8_t list"

datatype Type = TUN | TAP

text \<open>
  What a call of the \<^verbatim>\<open>std::function<void(const std::vector<uint8_t>&)>\<close>
  handler does to its caller: it returns, it throws an object whose class derives from
  \<^verbatim>\<open>std::exception\<close> (with its \<^verbatim>\<open>what()\<close> text), or it throws
  anything else (\<^verbatim>\<open>throw 42;\<close>, a class of the application's own).
\<close>

datatype handler_outcome = Returns | ThrowsStdException string | ThrowsOther

type_synonym packet_handler = "packet \<Rightarrow> handler_outcome"

text \<open>
  A \<^verbatim>\<open>std::thread\<close> object: the handler its function was started with, and
  whether it is joinable (started and not yet joined). Destroying a joinable
  \<^verbatim>\<open>std::thread\<close> calls \<^verbatim>\<open>std::terminate\<close>.
\<close>

datatype thread = Thread (thread_handler: packet_handler) (joinable: bool)

record TunTapInterface =
  name :: string
  type :: Type
  fd :: int
  running :: bool
  capture_thread :: "thread option"
  packets_received :: uint64_t
  packets_sent :: uint64_t
  bytes_received :: uint64_t
  bytes_sent :: uint64_t

datatype ifr_flag = IFF_TUN | IFF_TAP | IFF_NO_PI

text \<open>
  The effects of the class on the outside world. \<open>Cerr_errno m e\<close> is the line
  \<^verbatim>\<open>std::cerr << m << strerror(errno)\<close> with \<open>errno = e\<close>.
\<close>

datatype event =
    Open_dev_net_tun
  | Close int
  | Ioctl_TUNSETIFF int string "ifr_flag list"
  | Fcntl_GETFL int
  | Fcntl_SETFL_NONBLOCK int int
  | Socket_AF_INET
  | Ioctl_SIOCGIFFLAGS int string
  | Ioctl_SIOCSIFFLAGS_UP int string
  | Ioctl_SIOCSIFADDR int string string
  | Ioctl_SIOCSIFNETMASK int string string
  | Read int nat
  | Write int packet
  | Sleep_ms nat
  | Thread_spawn
  | Thread_join
  | Handler_call packet
  | Cout string
  | Cerr string
  | Cerr_errno string int

text \<open>
  Constants of the Linux headers (\<^verbatim>\<open><linux/if.h>\<close>,
  \<^verbatim>\<open><errno.h>\<close>), which the repository uses and does not define.
\<close>

definition IFNAMSIZ :: nat where
  "IFNAMSIZ = 16"

definition EAGAIN :: int where
  "EAGAIN = 11"

definition EWOULDBLOCK :: int where
  "EWOULDBLOCK = 11"

text \<open>
  \<^verbatim>\<open>strncpy(ifr.ifr_name, name_.c_str(), IFNAMSIZ - 1)\<close> into a zeroed
  \<^verbatim>\<open>ifreq\<close>: the characters before the first NUL, at most 15 of them.
\<close>

definition ifr_name_of :: "string \<Rightarrow> string" where
  "ifr_name_of n = take (IFNAMSIZ - 1) (takeWhile (\<lambda>c. c \<noteq> CHR 0x00) n)"

definition type_str :: "Type \<Rightarrow> string" where
  "type_str t = (if t = TUN then ''TUN'' else ''TAP'')"

subsection \<open>Constructor, destructor and the accessors of the header\<close>

definition TunTapInterface_ctor :: "string \<Rightarrow> Type \<Rightarrow> TunTapInterface" where
  "TunTapInterface_ctor n t =
     \<lparr>name = n, type = t, fd = -1, running = False, capture_thread = None,
      packets_received = 0, packets_sent = 0, bytes_received = 0, bytes_sent = 0\<rparr>"

definition getName :: "TunTapInterface \<Rightarrow> string" where
  "getName s = name s"

definition getPacketsReceived :: "TunTapInterface \<Rightarrow> uint64_t" where
  "getPacketsReceived s = packets_received s"

definition getPacketsSent :: "TunTapInterface \<Rightarrow> uint64_t" where
  "getPacketsSent s = packets_sent s"

definition getBytesReceived :: "TunTapInterface \<Rightarrow> uint64_t" where
  "getBytesReceived s = bytes_received s"

definition getBytesSent :: "TunTapInterface \<Rightarrow> uint64_t" where
  "getBytesSent s = bytes_sent s"

definition isRunning :: "TunTapInterface \<Rightarrow> bool" where
  "isRunning s = running s"

subsection \<open>initialize\<close>

text \<open>
  The kernel's answers to the calls of \<^verbatim>\<open>initialize\<close>: the return values
  of \<^verbatim>\<open>open\<close>, \<^verbatim>\<open>ioctl(TUNSETIFF)\<close> and the two
  \<^verbatim>\<open>fcntl\<close>, the \<^verbatim>\<open>errno\<close> each leaves on failure, and the
  name the kernel writes into \<^verbatim>\<open>ifr.ifr_name\<close>.
\<close>

record init_env =
  open_ret :: int
  open_errno :: int
  tunsetiff_ret :: int
  tunsetiff_errno :: int
  tunsetiff_name :: string
  getfl_ret :: int
  setfl_ret :: int
  fcntl_errno :: int

definition initialize :: "TunTapInterface \<Rightarrow> init_env \<Rightarrow> bool \<times> TunTapInterface \<times> event list" where
  "initialize s env =
     (let s1 = s\<lparr>fd := open_ret env\<rparr> in
      if fd s1 < 0 then
        (False, s1, [Open_dev_net_tun, Cerr_errno ''Failed to open /dev/net/tun: '' (open_errno env)])
      else
        let ifr_name = (if name s1 \<noteq> [] then ifr_name_of (name s1) else []);
            ifr_flags = [if type s1 = TUN then IFF_TUN else IFF_TAP, IFF_NO_PI];
            ev1 = [Open_dev_net_tun, Ioctl_TUNSETIFF (fd s1) ifr_name ifr_flags]
        in
        if tunsetiff_ret env < 0 then
          (False, s1\<lparr>fd := -1\<rparr>,
           ev1 @ [Cerr_errno ''Failed to create TUN/TAP device: '' (tunsetiff_errno env),
                  Close (fd s1)])
        else
          let s2 = s1\<lparr>name := tunsetiff_name env\<rparr>;
              flags = getfl_ret env;
              ev2 = ev1 @ [Fcntl_GETFL (fd s2)] @
                    (if flags < 0 then [] else [Fcntl_SETFL_NONBLOCK (fd s2) flags])
          in
          if flags < 0 \<or> setfl_ret env < 0 then
            (False, s2\<lparr>fd := -1\<rparr>,
             ev2 @ [Cerr_errno ''Failed to set non-blocking mode: '' (fcntl_errno env),
                    Close (fd s2)])
          else
            (True, s2,
             ev2 @ [Cout (''Created '' @ type_str (type s2) @ '' interface: '' @ name s2)]))"

subsection \<open>configure\<close>

record configure_env =
  socket_ret :: int
  socket_errno :: int
  gifflags_ret :: int
  sifflags_ret :: int
  sifaddr_ret :: int
  sifnetmask_ret :: int
  ioctl_errno :: int

definition configure ::
  "TunTapInterface \<Rightarrow> string \<Rightarrow> string \<Rightarrow> configure_env \<Rightarrow> bool \<times> TunTapInterface \<times> event list" where
  "configure s ip_address netmask env =
     (let sock = socket_ret env; n = ifr_name_of (name s) in
      if sock < 0 then
        (False, s,
         [Socket_AF_INET,
          Cerr_errno ''Failed to create socket for interface configuration: '' (socket_errno env)])
      else if gifflags_ret env < 0 then
        (False, s,
         [Socket_AF_INET, Ioctl_SIOCGIFFLAGS sock n,
          Cerr_errno ''Failed to get interface flags: '' (ioctl_errno env), Close sock])
      else if sifflags_ret env < 0 then
        (False, s,
         [Socket_AF_INET, Ioctl_SIOCGIFFLAGS sock n, Ioctl_SIOCSIFFLAGS_UP sock n,
          Cerr_errno ''Failed to set interface up: '' (ioctl_errno env), Close sock])
      else if sifaddr_ret env < 0 then
        (False, s,
         [Socket_AF_INET, Ioctl_SIOCGIFFLAGS sock n, Ioctl_SIOCSIFFLAGS_UP sock n,
          Ioctl_SIOCSIFADDR sock n ip_address,
          Cerr_errno ''Failed to set interface IP address: '' (ioctl_errno env), Close sock])
      else if sifnetmask_ret env < 0 then
        (False, s,
         [Socket_AF_INET, Ioctl_SIOCGIFFLAGS sock n, Ioctl_SIOCSIFFLAGS_UP sock n,
          Ioctl_SIOCSIFADDR sock n ip_address, Ioctl_SIOCSIFNETMASK sock n netmask,
          Cerr_errno ''Failed to set interface netmask: '' (ioctl_errno env), Close sock])
      else
        (True, s,
         [Socket_AF_INET, Ioctl_SIOCGIFFLAGS sock n, Ioctl_SIOCSIFFLAGS_UP sock n,
          Ioctl_SIOCSIFADDR sock n ip_address, Ioctl_SIOCSIFNETMASK sock n netmask,
          Close sock,
          Cout (''Configured interface '' @ name s @ '' with IP '' @ ip_address @
                '' and netmask '' @ netmask)]))"

subsection \<open>startCapture and stopCapture\<close>

text \<open>
  Assigning to the \<^verbatim>\<open>std::unique_ptr<std::thread>\<close> member destroys the
  thread object it held. \<open>None\<close> is \<^verbatim>\<open>std::terminate\<close>: the old object
  was joinable.
\<close>

definition release_thread :: "thread option \<Rightarrow> unit option" where
  "release_thread old =
     (case old of None \<Rightarrow> Some () | Some t \<Rightarrow> if joinable t then None else Some ())"

definition startCapture ::
  "TunTapInterface \<Rightarrow> packet_handler \<Rightarrow> (bool \<times> TunTapInterface \<times> event list) option" where
  "startCapture s packet_handler =
     (if fd s < 0 then
        Some (False, s, [Cerr ''Cannot start capture: interface not initialized''])
      else if running s then
        Some (False, s, [Cerr ''Capture already running''])
      else
        case release_thread (capture_thread s) of
          None \<Rightarrow> None
        | Some _ \<Rightarrow>
            Some (True,
                  s\<lparr>running := True, capture_thread := Some (Thread packet_handler True)\<rparr>,
                  [Thread_spawn, Cout (''Started packet capture on interface '' @ name s)]))"

definition stopCapture :: "TunTapInterface \<Rightarrow> TunTapInterface \<times> event list" where
  "stopCapture s =
     (if running s then
        case capture_thread s of
          None \<Rightarrow> (s, [])
        | Some t \<Rightarrow>
            (s\<lparr>running := False, capture_thread := None\<rparr>,
             (if joinable t then [Thread_join] else []) @
             [Cout (''Stopped packet capture on interface '' @ name s)])
      else (s, []))"

subsection \<open>writePacket\<close>

text \<open>
  The kernel's answer to \<^verbatim>\<open>write(fd, data, count)\<close>: failure with an
  \<^verbatim>\<open>errno\<close>, or the number of bytes it accepted, which
  \<^verbatim>\<open>write(2)\<close> bounds by \<open>count\<close>. \<open>sys_write\<close> gives the
  \<^verbatim>\<open>ssize_t\<close> the call returns and the \<^verbatim>\<open>errno\<close>.
\<close>

datatype write_result = WriteError int | Written nat

definition sys_write :: "nat \<Rightarrow> write_result \<Rightarrow> int \<times> int" where
  "sys_write count wr =
     (case wr of WriteError e \<Rightarrow> (-1, e) | Written n \<Rightarrow> (int (min n count), 0))"

definition writePacket ::
  "TunTapInterface \<Rightarrow> packet \<Rightarrow> write_result \<Rightarrow> bool \<times> TunTapInterface \<times> event list" where
  "writePacket s pkt wr =
     (if fd s < 0 \<or> \<not> running s then (False, s, [])
      else
        let (written, errno) = sys_write (length pkt) wr in
        if written < 0 then
          (False, s,
           [Write (fd s) pkt] @
           (if errno \<noteq> EAGAIN \<and> errno \<noteq> EWOULDBLOCK
            then [Cerr_errno ''Failed to write packet: '' errno] else []))
        else
          (True,
           s\<lparr>packets_sent := packets_sent s + 1,
             bytes_sent := bytes_sent s + word_of_int written\<rparr>,
           [Write (fd s) pkt]))"

subsection \<open>The capture loop\<close>

text \<open>
  The kernel's answer to \<^verbatim>\<open>read(fd, buffer.data(), buffer.size())\<close>: failure
  with an \<^verbatim>\<open>errno\<close>, or the bytes of the packet it delivers (none at end of
  input). \<^verbatim>\<open>read(2)\<close> stores at most \<open>count\<close> bytes at the start of the
  buffer, leaves the rest of the buffer as it was, and returns how many it stored.
  \<open>sys_read\<close> gives the \<^verbatim>\<open>ssize_t\<close> returned, the
  \<^verbatim>\<open>errno\<close> and the buffer after the call.
\<close>

datatype read_result = ReadError int | ReadBytes packet

definition sys_read :: "packet \<Rightarrow> read_result \<Rightarrow> int \<times> int \<times> packet" where
  "sys_read buffer rd =
     (case rd of
        ReadError e \<Rightarrow> (-1, e, buffer)
      | ReadBytes bs \<Rightarrow>
          (let stored = take (length buffer) bs
           in (int (length stored), 0, stored @ drop (length stored) buffer)))"

definition buffer_size :: nat where
  "buffer_size = 2048"

text \<open>
  One turn of the body of \<^verbatim>\<open>while (running_)\<close> in
  \<^verbatim>\<open>captureThreadFunc\<close>, on the scratch buffer and the object. The first
  component says whether control comes back to the loop: \<open>False\<close> when the handler
  throws what \<^verbatim>\<open>catch (const std::exception&)\<close> does not catch, so that the
  exception leaves the thread function.
\<close>

definition capture_body ::
  "packet_handler \<Rightarrow> read_result \<Rightarrow> packet \<Rightarrow> TunTapInterface
     \<Rightarrow> bool \<times> packet \<times> TunTapInterface \<times> event list" where
  "capture_body packet_handler rd buffer s =
     (let (nread, errno, buffer') = sys_read buffer rd;
          ev = [Read (fd s) (length buffer)]
      in
      if nread < 0 then
        (True, buffer', s,
         ev @ (if errno \<noteq> EAGAIN \<and> errno \<noteq> EWOULDBLOCK
               then [Cerr_errno ''Error reading from interface: '' errno, Sleep_ms 10]
               else []))
      else if nread > 0 then
        let s' = s\<lparr>packets_received := packets_received s + 1,
                     bytes_received := bytes_received s + word_of_int nread\<rparr>;
            pkt = take (nat nread) buffer'
        in
        case packet_handler pkt of
          Returns \<Rightarrow> (True, buffer', s', ev @ [Handler_call pkt])
        | ThrowsStdException what \<Rightarrow>
            (True, buffer', s',
             ev @ [Handler_call pkt, Cerr (''Exception in packet handler: '' @ what)])
        | ThrowsOther \<Rightarrow> (False, buffer', s', ev @ [Handler_call pkt])
      else
        (True, buffer', s, ev @ [Sleep_ms 1]))"

text \<open>
  The loop, on the list of the kernel's answers to its successive reads. It leaves when
  it sees \<open>running\<close> false (\<open>Exited\<close>) or when an exception escapes
  (\<open>Uncaught\<close>, which ends the process); at the end of the list it is still
  turning (\<open>Spinning\<close>).
\<close>

datatype loop_status = Exited | Spinning | Uncaught

fun capture_loop ::
  "packet_handler \<Rightarrow> read_result list \<Rightarrow> packet \<Rightarrow> TunTapInterface
     \<Rightarrow> loop_status \<times> TunTapInterface \<times> event list" where
  "capture_loop packet_handler [] buffer s =
     (if running s then (Spinning, s, []) else (Exited, s, []))"
| "capture_loop packet_handler (rd # rds) buffer s =
     (if running s then
        case capture_body packet_handler rd buffer s of
          (True, buffer', s', ev) \<Rightarrow>
            (case capture_loop packet_handler rds buffer' s' of
               (st, s'', ev') \<Rightarrow> (st, s'', ev @ ev'))
        | (False, buffer', s', ev) \<Rightarrow> (Uncaught, s', ev)
      else (Exited, s, []))"

definition captureThreadFunc ::
  "TunTapInterface \<Rightarrow> packet_handler \<Rightarrow> read_result list
     \<Rightarrow> loop_status \<times> TunTapInterface \<times> event list" where
  "captureThreadFunc s packet_handler rds =
     capture_loop packet_handler rds (replicate buffer_size 0) s"

subsection \<open>Moving and destroying\<close>

text \<open>
  A move leaves \<^verbatim>\<open>other.name_\<close> in a valid state that the C++ standard does
  not specify; \<open>residue\<close> is that string. The moved-from
  \<^verbatim>\<open>unique_ptr\<close> is null.
\<close>

definition moved_from :: "string \<Rightarrow> TunTapInterface \<Rightarrow> TunTapInterface" where
  "moved_from residue other =
     other\<lparr>name := residue, capture_thread := None, fd := -1, running := False\<rparr>"

text \<open>The move constructor: the new object and what is left of \<open>other\<close>.\<close>

definition TunTapInterface_move_ctor ::
  "string \<Rightarrow> TunTapInterface \<Rightarrow> TunTapInterface \<times> TunTapInterface" where
  "TunTapInterface_move_ctor residue other =
     (\<lparr>name = name other, type = type other, fd = fd other, running = running other,
       capture_thread = capture_thread other,
       packets_received = packets_received other, packets_sent = packets_sent other,
       bytes_received = bytes_received other, bytes_sent = bytes_sent other\<rparr>,
      moved_from residue other)"

text \<open>
  Move assignment between two distinct objects (the branch \<^verbatim>\<open>this != &other\<close>):
  the assigned object, what is left of \<open>other\<close>, and the effects. \<open>None\<close> is
  \<^verbatim>\<open>std::terminate\<close>, when the thread member still holds a joinable thread
  after \<^verbatim>\<open>stopCapture()\<close>.
\<close>

definition move_assign_distinct ::
  "string \<Rightarrow> TunTapInterface \<Rightarrow> TunTapInterface
     \<Rightarrow> (TunTapInterface \<times> TunTapInterface \<times> event list) option" where
  "move_assign_distinct residue this other =
     (let (this1, ev1) = stopCapture this;
          ev2 = (if fd this1 \<ge> 0 then [Close (fd this1)] else [])
      in
      case release_thread (capture_thread this1) of
        None \<Rightarrow> None
      | Some _ \<Rightarrow>
          Some (this1\<lparr>name := name other, type := type other, fd := fd other,
                       running := running other, capture_thread := capture_thread other,
                       packets_received := packets_received other,
                       packets_sent := packets_sent other,
                       bytes_received := bytes_received other,
                       bytes_sent := bytes_sent other\<rparr>,
                moved_from residue other,
                ev1 @ ev2))"

text \<open>
  \<^verbatim>\<open>operator=(TunTapInterface&&)\<close> on a store of objects: \<open>this\<close> and
  \<open>other\<close> are addresses, and assigning an object to itself changes nothing. An
  address that holds no object is not a call the language allows; the store is then
  returned as it is.
\<close>

type_synonym store = "nat \<rightharpoonup> TunTapInterface"

definition move_assign ::
  "string \<Rightarrow> store \<Rightarrow> nat \<Rightarrow> nat \<Rightarrow> (store \<times> event list) option" where
  "move_assign residue h this other =
     (if this \<noteq> other then
        case (h this, h other) of
          (Some a, Some b) \<Rightarrow>
            (case move_assign_distinct residue a b of
               None \<Rightarrow> None
             | Some (a', b', ev) \<Rightarrow> Some (h(this \<mapsto> a', other \<mapsto> b'), ev))
        | _ \<Rightarrow> Some (h, [])
      else Some (h, []))"

text \<open>
  The destructor: the effects. \<open>None\<close> is \<^verbatim>\<open>std::terminate\<close>, when the
  thread member is destroyed while it holds a joinable thread.
\<close>

definition TunTapInterface_dtor :: "TunTapInterface \<Rightarrow> event list option" where
  "TunTapInterface_dtor s =
     (let (s1, ev1) = stopCapture s;
          ev2 = (if fd s1 \<ge> 0 then [Close (fd s1)] else [])
      in
      case release_thread (capture_thread s1) of
        None \<Rightarrow> None
      | Some _ \<Rightarrow> Some (ev1 @ ev2))"

subsection \<open>Sequences of operations on one object\<close>

text \<open>
  The calls a program makes on one interface, and the turns its capture thread takes in
  between (\<open>CaptureTurn buffer rd\<close>: the loop is entered once more, on the scratch
  buffer as it is and the kernel's answer \<open>rd\<close> to its read). \<open>None\<close> is the end of the process by
  \<^verbatim>\<open>std::terminate\<close>.
\<close>

datatype op =
    Initialize init_env
  | Configure string string configure_env
  | StartCapture packet_handler
  | StopCapture
  | WritePacket packet write_result
  | CaptureTurn packet read_result

fun apply_op :: "op \<Rightarrow> TunTapInterface \<Rightarrow> TunTapInterface option" where
  "apply_op (Initialize env) s = Some (fst (snd (initialize s env)))"
| "apply_op (Configure ip_address netmask env) s =
     Some (fst (snd (configure s ip_address netmask env)))"
| "apply_op (StartCapture packet_handler) s =
     map_option (\<lambda>r. fst (snd r)) (startCapture s packet_handler)"
| "apply_op StopCapture s = Some (fst (stopCapture s))"
| "apply_op (WritePacket pkt wr) s = Some (fst (snd (writePacket s pkt wr)))"
| "apply_op (CaptureTurn buffer rd) s =
     (case capture_thread s of
        None \<Rightarrow> Some s
      | Some t \<Rightarrow>
          (case capture_loop (thread_handler t) [rd] buffer s of
             (Uncaught, s', ev) \<Rightarrow> None
           | (st, s', ev) \<Rightarrow> Some s'))"

fun run_ops :: "op list \<Rightarrow> TunTapInterface \<Rightarrow> TunTapInterface option" where
  "run_ops [] s = Some s"
| "run_ops (x # xs) s =
     (case apply_op x s of None \<Rightarrow> None | Some s' \<Rightarrow> run_ops xs s')"

subsection \<open>Operations and moves\<close>

text \<open>
  What can happen to one object over its life: a call of \<open>op\<close>, or a move. The object
  is moved from (\<open>MovedFrom residue\<close>: it is the \<^verbatim>\<open>other\<close> of a move
  constructor or of a move assignment), or it is assigned to by a move
  (\<open>MoveAssignedFrom residue other\<close>: it is the \<^verbatim>\<open>this\<close> of
  \<^verbatim>\<open>operator=\<close>, which calls \<^verbatim>\<open>stopCapture()\<close> on it first).
  \<open>keeps_capture\<close> holds of everything but \<^verbatim>\<open>stopCapture\<close> and the
  moves.
\<close>

datatype life_op =
    Call op
  | MovedFrom string
  | MoveAssignedFrom string TunTapInterface

fun apply_life_op :: "life_op \<Rightarrow> TunTapInterface \<Rightarrow> TunTapInterface option" where
  "apply_life_op (Call x) s = apply_op x s"
| "apply_life_op (MovedFrom residue) s = Some (moved_from residue s)"
| "apply_life_op (MoveAssignedFrom residue other) s =
     map_option fst (move_assign_distinct residue s other)"

fun run_life :: "life_op list \<Rightarrow> TunTapInterface \<Rightarrow> TunTapInterface option" where
  "run_life [] s = Some s"
| "run_life (x # xs) s =
     (case apply_life_op x s of None \<Rightarrow> None | Some s' \<Rightarrow> run_life xs s')"

fun keeps_capture :: "life_op \<Rightarrow> bool" where
  "keeps_capture (Call StopCapture) = False"
| "keeps_capture (Call x) = True"
| "keeps_capture (MovedFrom residue) = False"
| "keeps_capture (MoveAssignedFrom residue other) = False"

subsection \<open>Reading the effects\<close>

text \<open>The packets the handler was called with, in order.\<close>

fun handler_calls :: "event list \<Rightarrow> packet list" where
  "handler_calls [] = []"
| "handler_calls (Handler_call pkt # ev) = pkt # handler_calls ev"
| "handler_calls (e # ev) = handler_calls ev"

text \<open>How many reads of the device were made.\<close>

fun reads_done :: "event list \<Rightarrow> nat" where
  "reads_done [] = 0"
| "reads_done (Read d n # ev) = Suc (reads_done ev)"
| "reads_done (e # ev) = reads_done ev"

text \<open>
  The most bytes an operation can add to a byte counter, and the states in which none of
  the four 64-bit counters would wrap around when the operation runs.
\<close>

fun op_bytes :: "op \<Rightarrow> nat" where
  "op_bytes (WritePacket pkt wr) = length pkt"
| "op_bytes (CaptureTurn buffer rd) = length buffer"
| "op_bytes x = 0"

definition no_wrap :: "op \<Rightarrow> TunTapInterface \<Rightarrow> bool" where
  "no_wrap x s =
     (unat (packets_received s) + 1 < 2 ^ 64 \<and>
      unat (packets_sent s) + 1 < 2 ^ 64 \<and>
      unat (bytes_received s) + op_bytes x < 2 ^ 64 \<and>
      unat (bytes_sent s) + op_bytes x < 2 ^ 64)"

subsection \<open>Inert objects\<close>

text \<open>
  An object that holds no device, is not running and owns no thread: what the
  constructor builds, and what a move leaves behind.
\<close>

definition inert :: "TunTapInterface \<Rightarrow> bool" where
  "inert s = (fd s = -1 \<and> running s = False \<and> capture_thread s = None)"

subsection \<open>Example objects\<close>

text \<open>
  Handlers: one that returns, one whose body is \<^verbatim>\<open>throw 42;\<close>, one that
  throws \<^verbatim>\<open>std::runtime_error("boom")\<close>.
\<close>

definition drop_handler :: packet_handler where
  "drop_handler pkt = Returns"

definition throw_int_handler :: packet_handler where
  "throw_int_handler pkt = ThrowsOther"

definition runtime_error_handler :: packet_handler where
  "runtime_error_handler pkt = ThrowsStdException ''boom''"

text \<open>
  A handler that throws \<^verbatim>\<open>std::runtime_error("boom")\<close> on every packet but
  the one-byte packet \<open>[9]\<close>, on which its body is \<^verbatim>\<open>throw 42;\<close>.
\<close>

definition mixed_handler :: packet_handler where
  "mixed_handler pkt = (if pkt = [9] then ThrowsOther else ThrowsStdException ''boom'')"

text \<open>
  The kernel creates the device \<^verbatim>\<open>tap0\<close> on descriptor 3; and the same
  creation when \<^verbatim>\<open>fcntl(fd, F_GETFL)\<close> then fails with
  \<^verbatim>\<open>EBADF\<close>.
\<close>

definition tap0_env :: init_env where
  "tap0_env =
     \<lparr>open_ret = 3, open_errno = 0, tunsetiff_ret = 0, tunsetiff_errno = 0,
      tunsetiff_name = ''tap0'', getfl_ret = 2, setfl_ret = 0, fcntl_errno = 0\<rparr>"

definition tap0_getfl_fails_env :: init_env where
  "tap0_getfl_fails_env =
     \<lparr>open_ret = 3, open_errno = 0, tunsetiff_ret = 0, tunsetiff_errno = 0,
      tunsetiff_name = ''tap0'', getfl_ret = -1, setfl_ret = 0, fcntl_errno = 9\<rparr>"

text \<open>
  The interface \<^verbatim>\<open>tap0\<close> after \<^verbatim>\<open>initialize\<close>, after
  \<^verbatim>\<open>startCapture\<close>, and after it has then sent one packet of four bytes.
\<close>

definition tap0_up :: TunTapInterface where
  "tap0_up =
     \<lparr>name = ''tap0'', type = TAP, fd = 3, running = False, capture_thread = None,
      packets_received = 0, packets_sent = 0, bytes_received = 0, bytes_sent = 0\<rparr>"

definition tap0_running :: TunTapInterface where
  "tap0_running =
     \<lparr>name = ''tap0'', type = TAP, fd = 3, running = True,
      capture_thread = Some (Thread drop_handler True),
      packets_received = 0, packets_sent = 0, bytes_received = 0, bytes_sent = 0\<rparr>"

definition tap0_sent :: TunTapInterface where
  "tap0_sent =
     \<lparr>name = ''tap0'', type = TAP, fd = 3, running = True,
      capture_thread = Some (Thread drop_handler True),
      packets_received = 0, packets_sent = 1, bytes_received = 0, bytes_sent = 4\<rparr>"

text \<open>
  While \<^verbatim>\<open>tap0\<close> lives on under descriptor 3, the kernel creates the
  device \<^verbatim>\<open>tap1\<close> on descriptor 4 for an interface with no name; and that
  interface after \<^verbatim>\<open>initialize\<close>.
\<close>

definition tap1_env :: init_env where
  "tap1_env =
     \<lparr>open_ret = 4, open_errno = 0, tunsetiff_ret = 0, tunsetiff_errno = 0,
      tunsetiff_name = ''tap1'', getfl_ret = 2, setfl_ret = 0, fcntl_errno = 0\<rparr>"

definition tap1_up :: TunTapInterface where
  "tap1_up =
     \<lparr>name = ''tap1'', type = TAP, fd = 4, running = False, capture_thread = None,
      packets_received = 0, packets_sent = 0, bytes_received = 0, bytes_sent = 0\<rparr>"

section \<open>Properties\<close>

subsection \<open>Auxiliary facts\<close>

lemma tap0_reachable:
  "run_ops [Initialize tap0_env] (TunTapInterface_ctor ''tap0'' TAP) = Some tap0_up"
  "run_ops [Initialize tap0_env, StartCapture drop_handler]
     (TunTapInterface_ctor ''tap0'' TAP) = Some tap0_running"
  "run_ops [Initialize tap0_env, StartCapture drop_handler,
            WritePacket [1, 2, 3, 4] (Written 4)]
     (TunTapInterface_ctor ''tap0'' TAP) = Some tap0_sent"
  by (simp_all add: TunTapInterface_ctor_def initialize_def tap0_env_def tap0_up_def
      tap0_running_def tap0_sent_def Let_def startCapture_def release_thread_def
      writePacket_def sys_write_def)

lemma take_min_length: "take (min (length bs) n) bs = take n bs"
  by (simp add: min_def)

lemma sys_read_zero:
  "fst (sys_read buffer rd) = 0 \<Longrightarrow> sys_read buffer rd = (0, 0, buffer)"
  by (cases rd) (auto simp: sys_read_def Let_def min_def split: if_splits)

lemma handler_calls_append: "handler_calls (ev @ ev') = handler_calls ev @ handler_calls ev'"
  by (induction ev rule: handler_calls.induct) simp_all

lemma reads_done_append: "reads_done (ev @ ev') = reads_done ev + reads_done ev'"
  by (induction ev rule: reads_done.induct) simp_all

lemma capture_body_frame:
  assumes "capture_body h rd buffer s = (ok, buffer', s', ev)"
  shows "\<exists>n. n \<le> length buffer \<and>
      s' = s\<lparr>packets_received := packets_received s + (if n = 0 then 0 else 1),
             bytes_received := bytes_received s + of_nat n\<rparr> \<and>
      reads_done ev = 1 \<and> [] \<notin> set (handler_calls ev) \<and>
      (\<not> ok \<longrightarrow> (\<exists>pkt. h pkt = ThrowsOther))"
proof (cases rd)
  case (ReadError e)
  with assms have "s' = s" "reads_done ev = 1" "handler_calls ev = []" "ok"
    by (auto simp: capture_body_def sys_read_def split: if_splits)
  then show ?thesis by (intro exI [of _ 0]) simp
next
  case (ReadBytes bs)
  let ?stored = "take (length buffer) bs"
  show ?thesis
  proof (cases "?stored = []")
    case True
    then have "fst (sys_read buffer rd) = 0"
      by (auto simp: ReadBytes sys_read_def Let_def)
    then have "sys_read buffer rd = (0, 0, buffer)" by (rule sys_read_zero)
    with assms have "s' = s" "reads_done ev = 1" "handler_calls ev = []" "ok"
      by (auto simp: capture_body_def)
    then show ?thesis by (intro exI [of _ 0]) simp
  next
    case False
    with assms ReadBytes have
      "s' = s\<lparr>packets_received := packets_received s + 1,
             bytes_received := bytes_received s + of_nat (length ?stored)\<rparr>"
      "reads_done ev = 1" "handler_calls ev = [?stored]" "\<not> ok \<longrightarrow> h ?stored = ThrowsOther"
      by (auto simp: capture_body_def sys_read_def Let_def take_min_length
          split: handler_outcome.splits)
    with False show ?thesis
      by (intro exI [of _ "length ?stored"]) auto
  qed
qed


lemma capture_loop_frame:
  "capture_loop h rds buffer s = (st, s', ev) \<Longrightarrow>
     running s' = running s \<and> fd s' = fd s \<and> capture_thread s' = capture_thread s \<and>
     name s' = name s \<and> type s' = type s \<and>
     packets_sent s' = packets_sent s \<and> bytes_sent s' = bytes_sent s \<and>
     [] \<notin> set (handler_calls ev)"
proof (induction rds arbitrary: buffer s st s' ev)
  case Nil
  then show ?case by (auto split: if_splits)
next
  case (Cons rd rds)
  show ?case
  proof (cases "running s")
    case False
    with Cons.prems show ?thesis by simp
  next
    case True
    obtain ok b1 s1 ev1 where body: "capture_body h rd buffer s = (ok, b1, s1, ev1)"
      by (metis prod_cases4)
    from capture_body_frame [OF body] have fr:
      "running s1 = running s" "fd s1 = fd s" "capture_thread s1 = capture_thread s"
      "name s1 = name s" "type s1 = type s"
      "packets_sent s1 = packets_sent s" "bytes_sent s1 = bytes_sent s"
      "[] \<notin> set (handler_calls ev1)"
      by auto
    show ?thesis
    proof (cases ok)
      case False
      with Cons.prems True body fr show ?thesis by auto
    next
      case ok: True
      obtain st2 s2 ev2 where rest: "capture_loop h rds b1 s1 = (st2, s2, ev2)"
        by (metis prod_cases3)
      from Cons.IH [OF rest] fr Cons.prems True body ok rest show ?thesis
        by (auto simp: handler_calls_append)
    qed
  qed
qed

lemma inert_operations:
  assumes "inert s"
  shows "isRunning s = False"
    and "startCapture s h = Some (False, s, [Cerr ''Cannot start capture: interface not initialized''])"
    and "stopCapture s = (s, [])"
    and "writePacket s pkt wr = (False, s, [])"
    and "TunTapInterface_dtor s = Some []"
    and "fst (initialize s env) = fst (initialize (TunTapInterface_ctor (name s) (type s)) env)"
    and "snd (snd (initialize s env)) = snd (snd (initialize (TunTapInterface_ctor (name s) (type s)) env))"
  using assms
  by (simp_all add: inert_def isRunning_def startCapture_def stopCapture_def writePacket_def
      TunTapInterface_dtor_def release_thread_def initialize_def TunTapInterface_ctor_def Let_def)

lemma ctor_inert: "inert (TunTapInterface_ctor n t)"
  by (simp add: inert_def TunTapInterface_ctor_def)

lemma moved_from_inert: "inert (moved_from residue other)"
  by (simp add: inert_def moved_from_def)

lemma move_assign_distinct_Some:
  assumes "move_assign_distinct residue this other = Some (dst, src', ev)"
  shows "src' = moved_from residue other"
    and "packets_received dst = packets_received other"
    and "packets_sent dst = packets_sent other"
    and "bytes_received dst = bytes_received other"
    and "bytes_sent dst = bytes_sent other"
    and "running dst = running other"
    and "fd dst = fd other"
    and "capture_thread dst = capture_thread other"
    and "name dst = name other"
    and "type dst = type other"
  using assms
  by (auto simp: move_assign_distinct_def Let_def split: prod.splits option.splits)

lemma initialize_frame:
  "running (fst (snd (initialize s env))) = running s"
  "capture_thread (fst (snd (initialize s env))) = capture_thread s"
  "type (fst (snd (initialize s env))) = type s"
  "packets_received (fst (snd (initialize s env))) = packets_received s"
  "packets_sent (fst (snd (initialize s env))) = packets_sent s"
  "bytes_received (fst (snd (initialize s env))) = bytes_received s"
  "bytes_sent (fst (snd (initialize s env))) = bytes_sent s"
  by (simp_all add: initialize_def Let_def)

lemma configure_frame: "fst (snd (configure s ip_address netmask env)) = s"
  by (simp add: configure_def Let_def)

lemma startCapture_running:
  "running s \<Longrightarrow>
   startCapture s h =
     Some (False, s,
           [Cerr (if fd s < 0 then ''Cannot start capture: interface not initialized''
                  else ''Capture already running'')])"
  by (simp add: startCapture_def)

lemma startCapture_Some:
  assumes "startCapture s h = Some (ok, s', ev)"
  shows "s' = (if ok then s\<lparr>running := True, capture_thread := Some (Thread h True)\<rparr> else s)"
    and "ok \<Longrightarrow> \<not> running s \<and> 0 \<le> fd s"
  using assms
  by (auto simp: startCapture_def release_thread_def split: if_splits option.splits)

lemma stopCapture_frame:
  "fd (fst (stopCapture s)) = fd s"
  "packets_received (fst (stopCapture s)) = packets_received s"
  "packets_sent (fst (stopCapture s)) = packets_sent s"
  "bytes_received (fst (stopCapture s)) = bytes_received s"
  "bytes_sent (fst (stopCapture s)) = bytes_sent s"
  by (simp_all add: stopCapture_def split: option.splits)

lemma writePacket_frame:
  assumes "writePacket s pkt wr = (ok, s', ev)"
  shows "\<exists>n. n \<le> length pkt \<and>
       s' = s\<lparr>packets_sent := packets_sent s + (if ok then 1 else 0),
              bytes_sent := bytes_sent s + of_nat n\<rparr>"
proof (cases "fd s < 0 \<or> \<not> running s")
  case True
  with assms have "s' = s" "\<not> ok" by (auto simp: writePacket_def)
  then show ?thesis by (intro exI [of _ 0]) simp
next
  case False
  show ?thesis
  proof (cases wr)
    case (WriteError e)
    with False assms have "s' = s" "\<not> ok"
      by (auto simp: writePacket_def sys_write_def)
    then show ?thesis by (intro exI [of _ 0]) simp
  next
    case (Written n)
    with False assms have "ok"
      "s' = s\<lparr>packets_sent := packets_sent s + 1,
              bytes_sent := bytes_sent s + of_nat (min n (length pkt))\<rparr>"
      by (auto simp: writePacket_def sys_write_def)
    then show ?thesis by (intro exI [of _ "min n (length pkt)"]) simp
  qed
qed


lemma unat_add_of_nat:
  fixes c :: uint64_t
  assumes "unat c + n < 2 ^ 64"
  shows "unat (c + of_nat n) = unat c + n"
proof -
  from assms have "n < 2 ^ 64" by simp
  then have "unat (of_nat n :: uint64_t) = n" by (simp add: unat_of_nat)
  with assms unat_add_lem [of c "of_nat n"] show ?thesis by simp
qed

lemma unat_le_add_of_nat:
  fixes c :: uint64_t
  assumes "unat c + n < 2 ^ 64" and "m \<le> n"
  shows "unat c \<le> unat (c + of_nat m)"
proof -
  from assms have "unat c + m < 2 ^ 64" by simp
  then have "unat (c + of_nat m) = unat c + m" by (rule unat_add_of_nat)
  then show ?thesis by simp
qed

lemma unat_le_add_if:
  fixes c :: uint64_t
  assumes "unat c + 1 < 2 ^ 64"
  shows "unat c \<le> unat (c + (if b then 1 else 0))"
  using unat_le_add_of_nat [of c 1 1] assms by simp

text \<open>
  One turn of the capture thread: the object changes only in its receive counters, by a
  packet count of at most 1 and a byte count of at most the size of the buffer.
\<close>

lemma capture_turn_frame:
  assumes "apply_op (CaptureTurn buffer rd) s = Some s'"
  shows "\<exists>n. n \<le> length buffer \<and>
      s' = s\<lparr>packets_received := packets_received s + (if n = 0 then 0 else 1),
             bytes_received := bytes_received s + of_nat n\<rparr>"
proof (cases "capture_thread s")
  case None
  with assms have "s' = s" by simp
  then show ?thesis by (intro exI [of _ 0]) simp
next
  case (Some t)
  show ?thesis
  proof (cases "running s")
    case False
    with assms Some have "s' = s" by simp
    then show ?thesis by (intro exI [of _ 0]) simp
  next
    case True
    obtain ok b1 s1 ev1 where
      body: "capture_body (thread_handler t) rd buffer s = (ok, b1, s1, ev1)"
      using prod_cases4 by blast
    have "s' = s1"
    proof (cases ok)
      case True
      have "running s1 = running s"
        using capture_body_frame [OF body] by auto
      with assms Some \<open>running s\<close> body True show ?thesis by simp
    next
      case False
      with assms Some \<open>running s\<close> body show ?thesis by simp
    qed
    with capture_body_frame [OF body] show ?thesis by blast
  qed
qed

text \<open>Short of stopCapture, an operation keeps a running interface running, with its thread.\<close>

lemma apply_op_keeps_capture:
  assumes "apply_op x s = Some s'" and "x \<noteq> StopCapture" and "running s"
  shows "running s' \<and> capture_thread s' = capture_thread s"
proof (cases x)
  case (Initialize env)
  with assms(1) have "s' = fst (snd (initialize s env))" by simp
  with assms(3) show ?thesis by (simp add: initialize_frame)
next
  case (Configure ip_address netmask env)
  with assms(1) have "s' = s" by (simp add: configure_frame)
  with assms(3) show ?thesis by simp
next
  case (StartCapture h)
  with assms(1) startCapture_running [OF assms(3), of h] have "s' = s" by simp
  with assms(3) show ?thesis by simp
next
  case StopCapture
  with assms(2) show ?thesis by simp
next
  case (WritePacket pkt wr)
  with assms(1) obtain ok ev where w: "writePacket s pkt wr = (ok, s', ev)"
    by (cases "writePacket s pkt wr") auto
  from writePacket_frame [OF w] assms(3) show ?thesis by auto
next
  case (CaptureTurn buffer rd)
  with assms(1) capture_turn_frame obtain n where
    "s' = s\<lparr>packets_received := packets_received s + (if n = 0 then 0 else 1),
           bytes_received := bytes_received s + of_nat n\<rparr>"
    by blast
  with assms(3) show ?thesis by simp
qed

lemma run_ops_keeps_capture:
  "run_ops ops s = Some s' \<Longrightarrow> StopCapture \<notin> set ops \<Longrightarrow> running s \<Longrightarrow>
     running s' \<and> capture_thread s' = capture_thread s"
proof (induction ops arbitrary: s)
  case Nil
  then show ?case by simp
next
  case (Cons x ops)
  from Cons.prems(1) obtain s1 where s1: "apply_op x s = Some s1" "run_ops ops s1 = Some s'"
    by (cases "apply_op x s") auto
  from Cons.prems(2) have nx: "x \<noteq> StopCapture" "StopCapture \<notin> set ops" by auto
  from apply_op_keeps_capture [OF s1(1) nx(1) Cons.prems(3)]
  have k: "running s1" "capture_thread s1 = capture_thread s" by simp_all
  from Cons.IH [OF s1(2) nx(2) k(1)] k(2) show ?case by simp
qed

text \<open>The loop ends by an exception only when a packet it handed over made the handler throw a foreign one.\<close>

lemma capture_body_uncaught:
  assumes "capture_body h rd buffer s = (False, b1, s1, ev1)"
  shows "\<exists>pkt\<in>set (handler_calls ev1). h pkt = ThrowsOther"
proof (cases rd)
  case (ReadError e)
  with assms show ?thesis
    by (auto simp: capture_body_def sys_read_def split: if_splits)
next
  case (ReadBytes bs)
  show ?thesis
  proof (cases "take (length buffer) bs = []")
    case True
    then have "fst (sys_read buffer rd) = 0"
      by (auto simp: ReadBytes sys_read_def Let_def)
    then have "sys_read buffer rd = (0, 0, buffer)" by (rule sys_read_zero)
    with assms show ?thesis by (simp add: capture_body_def)
  next
    case False
    with assms ReadBytes show ?thesis
      by (auto simp: capture_body_def sys_read_def Let_def take_min_length
          split: handler_outcome.splits)
  qed
qed

lemma capture_loop_survives:
  assumes "running s"
    and "\<forall>pkt\<in>set (handler_calls (snd (snd (capture_loop h rds buffer s)))). h pkt \<noteq> ThrowsOther"
  shows "fst (capture_loop h rds buffer s) = Spinning \<and>
         reads_done (snd (snd (capture_loop h rds buffer s))) = length rds"
  using assms
proof (induction rds arbitrary: buffer s)
  case Nil
  then show ?case by simp
next
  case (Cons rd rds)
  obtain ok b1 s1 ev1 where body: "capture_body h rd buffer s = (ok, b1, s1, ev1)"
    using prod_cases4 by blast
  obtain st2 s2 ev2 where rest: "capture_loop h rds b1 s1 = (st2, s2, ev2)"
    using prod_cases3 by blast
  have ok: "ok"
  proof (rule ccontr)
    assume "\<not> ok"
    with body have b: "capture_body h rd buffer s = (False, b1, s1, ev1)" by simp
    with Cons.prems(1) have "snd (snd (capture_loop h (rd # rds) buffer s)) = ev1" by simp
    with Cons.prems(2) capture_body_uncaught [OF b] show False by auto
  qed
  from capture_body_frame [OF body] have r: "reads_done ev1 = 1"
    and "running s1 = running s" by auto
  with Cons.prems(1) have run1: "running s1" by simp
  from Cons.prems(1) body ok rest
  have ev: "capture_loop h (rd # rds) buffer s = (st2, s2, ev1 @ ev2)" by simp
  with Cons.prems(2) have "\<forall>pkt\<in>set (handler_calls ev2). h pkt \<noteq> ThrowsOther"
    by (simp add: handler_calls_append)
  with rest have "\<forall>pkt\<in>set (handler_calls (snd (snd (capture_loop h rds b1 s1)))). h pkt \<noteq> ThrowsOther"
    by simp
  from Cons.IH [OF run1 this] rest
  have "st2 = Spinning" "reads_done ev2 = length rds" by simp_all
  with ev r show ?case by (simp add: reads_done_append)
qed

text \<open>Short of stopCapture and of moves, a running interface stays running, with its thread.\<close>

lemma run_life_keeps_capture:
  "run_life ops s = Some s' \<Longrightarrow> \<forall>x\<in>set ops. keeps_capture x \<Longrightarrow> running s \<Longrightarrow>
     running s' \<and> capture_thread s' = capture_thread s"
proof (induction ops arbitrary: s)
  case Nil
  then show ?case by simp
next
  case (Cons x ops)
  from Cons.prems(1) obtain s1 where
    s1: "apply_life_op x s = Some s1" "run_life ops s1 = Some s'"
    by (cases "apply_life_op x s") auto
  from Cons.prems(2) have kx: "keeps_capture x" and ko: "\<forall>y\<in>set ops. keeps_capture y"
    by simp_all
  from kx obtain y where y: "x = Call y" "y \<noteq> StopCapture"
    by (cases x rule: keeps_capture.cases) auto
  with s1(1) have "apply_op y s = Some s1" by simp
  from apply_op_keeps_capture [OF this y(2) Cons.prems(3)]
  have k: "running s1" "capture_thread s1 = capture_thread s" by simp_all
  from Cons.IH [OF s1(2) ko k(1)] k(2) show ?case by simp
qed

lemma startCapture_spawns_iff:
  assumes "startCapture s h = Some (ok, s', ev)"
  shows "(Thread_spawn \<in> set ev) = ok" and "ok = (0 \<le> fd s \<and> \<not> running s)"
  using assms
  by (auto simp: startCapture_def release_thread_def split: if_splits option.splits)

text \<open>
  The thread member holds a thread only while the interface is running. The constructor
  establishes this and every operation of \<open>apply_op\<close> keeps it; where it holds, no
  assignment to the member and no destructor meets a joinable thread, and the
  \<^verbatim>\<open>std::terminate\<close> of \<open>release_thread\<close> is out of reach.
\<close>

lemma ctor_thread_only_when_running:
  "capture_thread (TunTapInterface_ctor n t) = None"
  by (simp add: TunTapInterface_ctor_def)

lemma apply_op_thread_only_when_running:
  assumes "apply_op x s = Some s'" and "capture_thread s \<noteq> None \<longrightarrow> running s"
  shows "capture_thread s' \<noteq> None \<longrightarrow> running s'"
proof (cases x)
  case (Initialize env)
  with assms show ?thesis by (auto simp: initialize_frame)
next
  case (Configure ip_address netmask env)
  with assms show ?thesis by (simp add: configure_frame)
next
  case (StartCapture h)
  with assms(1) obtain ok ev where "startCapture s h = Some (ok, s', ev)"
    by (cases "startCapture s h") auto
  from startCapture_Some(1) [OF this] assms(2) show ?thesis by (cases ok) simp_all
next
  case StopCapture
  with assms show ?thesis by (auto simp: stopCapture_def split: option.splits if_splits)
next
  case (WritePacket pkt wr)
  with assms(1) obtain ok ev where w: "writePacket s pkt wr = (ok, s', ev)"
    by (cases "writePacket s pkt wr") auto
  from writePacket_frame [OF w] assms(2) show ?thesis by auto
next
  case (CaptureTurn buffer rd)
  with assms(1) capture_turn_frame obtain n where
    "s' = s\<lparr>packets_received := packets_received s + (if n = 0 then 0 else 1),
           bytes_received := bytes_received s + of_nat n\<rparr>"
    by blast
  with assms(2) show ?thesis by simp
qed

lemma no_terminate_when_thread_only_when_running:
  assumes "capture_thread s \<noteq> None \<longrightarrow> running s"
  shows "startCapture s h \<noteq> None"
    and "move_assign_distinct residue s other \<noteq> None"
    and "TunTapInterface_dtor s \<noteq> None"
  using assms
  by (auto simp: startCapture_def move_assign_distinct_def TunTapInterface_dtor_def
      stopCapture_def release_thread_def split: option.splits if_splits)

text \<open>Move assignment on the store: to itself, and between two objects.\<close>

lemma move_assign_self: "move_assign residue h this this = Some (h, [])"
  by (simp add: move_assign_def)

lemma move_assign_two_objects:
  assumes "this \<noteq> other" and "h this = Some a" and "h other = Some b"
    and "move_assign_distinct residue a b = Some (a', b', ev)"
  shows "move_assign residue h this other = Some (h(this \<mapsto> a', other \<mapsto> b'), ev)"
  using assms by (simp add: move_assign_def)

subsection \<open>The capture loop on a packet\<close>



subsection \<open>Bytes counted by writePacket\<close>

text \<open>
  Claim C2, as stated, fails on the code. On the running interface \<open>tap0_running\<close>,
  a packet of 4 bytes of which the kernel accepts 2 makes
  \<^verbatim>\<open>writePacket\<close> return true, and the sent-byte counter grows by 2, not by
  the packet's length: the code adds \<^verbatim>\<open>written\<close>, the value
  \<^verbatim>\<open>write\<close> returned, and takes every value that is not negative for
  success.
\<close>

theorem writePacket_short_write_counterexample:
  "fd tap0_running \<ge> 0 \<and> isRunning tap0_running \<and> length [1, 2, 3, 4 :: uint8_t] = 4 \<and>
   fst (writePacket tap0_running [1, 2, 3, 4] (Written 2)) = True \<and>
   getBytesSent (fst (snd (writePacket tap0_running [1, 2, 3, 4] (Written 2)))) =
     getBytesSent tap0_running + 2 \<and>
   getBytesSent (fst (snd (writePacket tap0_running [1, 2, 3, 4] (Written 2)))) \<noteq>
     getBytesSent tap0_running + 4"
  by (simp add: writePacket_def sys_write_def tap0_running_def isRunning_def getBytesSent_def)

text \<open>
  Claim C2, amended. When \<^verbatim>\<open>writePacket\<close> returns true, the interface
  holds a device and is running, the sent-packet counter has grown by exactly 1 and the
  sent-byte counter by exactly \<open>written\<close>, the number of bytes
  \<^verbatim>\<open>write\<close> reported, which lies between 0 and the packet's length; the
  receive counters are unchanged. The sent-byte counter grows by the packet's length
  when the write was complete. (Counters in the arithmetic of
  \<^verbatim>\<open>uint64_t\<close>.)
\<close>

theorem writePacket_counts_bytes_written:
  assumes "writePacket s pkt wr = (True, s', ev)"
    and "written = fst (sys_write (length pkt) wr)"
  shows "0 \<le> fd s \<and> isRunning s \<and> 0 \<le> written \<and> written \<le> int (length pkt) \<and>
         getPacketsSent s' = getPacketsSent s + 1 \<and>
         getBytesSent s' = getBytesSent s + word_of_int written \<and>
         getPacketsReceived s' = getPacketsReceived s \<and>
         getBytesReceived s' = getBytesReceived s \<and>
         (written = int (length pkt) \<longrightarrow>
            getBytesSent s' = getBytesSent s + of_nat (length pkt))"
proof (cases wr)
  case (WriteError e)
  with assms show ?thesis
    by (auto simp: writePacket_def sys_write_def split: if_splits)
next
  case (Written n)
  with assms show ?thesis
    by (auto simp: writePacket_def sys_write_def isRunning_def getPacketsSent_def
        getBytesSent_def getPacketsReceived_def getBytesReceived_def split: if_splits)
qed

text \<open>
  The amended C2 on \<open>tap0_running\<close> and a packet of 4 bytes written whole.
\<close>

theorem writePacket_counts_bytes_written_witness:
  "writePacket tap0_running [1, 2, 3, 4] (Written 4) =
     (True, tap0_sent, [Write 3 [1, 2, 3, 4]]) \<and>
   fst (sys_write (length [1, 2, 3, 4 :: uint8_t]) (Written 4)) = 4 \<and>
   getPacketsSent tap0_running = 0 \<and> getPacketsSent tap0_sent = 1 \<and>
   getBytesSent tap0_running = 0 \<and> getBytesSent tap0_sent = 4"
proof -
  have w: "writePacket tap0_running [1, 2, 3, 4] (Written 4) =
      (True, tap0_sent, [Write 3 [1, 2, 3, 4]])"
    by (simp add: writePacket_def sys_write_def tap0_running_def tap0_sent_def)
  have n: "(4 :: int) = fst (sys_write (length [1, 2, 3, 4 :: uint8_t]) (Written 4))"
    by (simp add: sys_write_def)
  have v: "getPacketsSent tap0_running = 0" "getBytesSent tap0_running = 0"
    by (simp_all add: getPacketsSent_def getBytesSent_def tap0_running_def)
  from writePacket_counts_bytes_written [OF w n] w n v show ?thesis by simp
qed

subsection \<open>Moving an interface\<close>

text \<open>
  Claim C3, as stated, fails on the code: an operation on the moved-from object does not
  behave as on an object that was never initialized. After \<open>tap0_sent\<close> (one packet
  of four bytes sent) is moved from, its \<^verbatim>\<open>getPacketsSent()\<close> and
  \<^verbatim>\<open>getBytesSent()\<close> still answer 1 and 4; on an interface that was never
  initialized they answer 0. The moves reset \<^verbatim>\<open>fd_\<close> and
  \<^verbatim>\<open>running_\<close> of the source and move its name and its thread out; its
  counters stay.
\<close>

theorem moved_from_keeps_counters_counterexample:
  "getPacketsSent (snd (TunTapInterface_move_ctor [] tap0_sent)) = 1 \<and>
   getBytesSent (snd (TunTapInterface_move_ctor [] tap0_sent)) = 4 \<and>
   getPacketsSent (TunTapInterface_ctor [] TAP) = 0 \<and>
   getBytesSent (TunTapInterface_ctor [] TAP) = 0"
  by (simp add: TunTapInterface_move_ctor_def moved_from_def tap0_sent_def
      TunTapInterface_ctor_def getPacketsSent_def getBytesSent_def)

text \<open>
  Claim C3, amended. A move, by the move constructor or by move assignment between two
  distinct objects, gives the destination the four counters, the running state, the
  device handle and the thread reference of the source, exactly. Afterwards the source
  holds no device handle (\<open>fd = -1\<close>) and no thread, and
  \<^verbatim>\<open>isRunning()\<close> is false. On it
  \<^verbatim>\<open>startCapture\<close> fails as on an interface that is not initialized,
  \<^verbatim>\<open>stopCapture\<close> does nothing, \<^verbatim>\<open>writePacket\<close> fails
  and changes nothing, the destructor has no effect on the system, and
  \<^verbatim>\<open>initialize\<close> returns and acts on the system as it does on a newly
  constructed interface of the same type whose name is the string the move left behind.
  The four counters of the source keep the values they had before the move.
\<close>

theorem move_transfers_and_empties_source:
  assumes "(dst, src') = TunTapInterface_move_ctor residue src \<or>
           (\<exists>ev. move_assign_distinct residue this src = Some (dst, src', ev))"
  shows "getPacketsReceived dst = getPacketsReceived src \<and>
         getPacketsSent dst = getPacketsSent src \<and>
         getBytesReceived dst = getBytesReceived src \<and>
         getBytesSent dst = getBytesSent src \<and>
         isRunning dst = isRunning src \<and>
         fd dst = fd src \<and> capture_thread dst = capture_thread src \<and>
         fd src' = -1 \<and> isRunning src' = False \<and> capture_thread src' = None \<and>
         startCapture src' h =
           Some (False, src', [Cerr ''Cannot start capture: interface not initialized'']) \<and>
         stopCapture src' = (src', []) \<and>
         writePacket src' pkt wr = (False, src', []) \<and>
         TunTapInterface_dtor src' = Some [] \<and>
         fst (initialize src' env) =
           fst (initialize (TunTapInterface_ctor residue (type src)) env) \<and>
         snd (snd (initialize src' env)) =
           snd (snd (initialize (TunTapInterface_ctor residue (type src)) env)) \<and>
         getPacketsReceived src' = getPacketsReceived src \<and>
         getPacketsSent src' = getPacketsSent src \<and>
         getBytesReceived src' = getBytesReceived src \<and>
         getBytesSent src' = getBytesSent src"
proof -
  from assms have src': "src' = moved_from residue src"
    by (auto simp: TunTapInterface_move_ctor_def dest: move_assign_distinct_Some(1))
  from assms have dst:
    "packets_received dst = packets_received src" "packets_sent dst = packets_sent src"
    "bytes_received dst = bytes_received src" "bytes_sent dst = bytes_sent src"
    "running dst = running src" "fd dst = fd src" "capture_thread dst = capture_thread src"
    by (auto simp: TunTapInterface_move_ctor_def dest: move_assign_distinct_Some)
  have i: "inert src'" unfolding src' by (rule moved_from_inert)
  have nt: "name src' = residue" "type src' = type src"
    by (simp_all add: src' moved_from_def)
  have keep:
    "packets_received src' = packets_received src" "packets_sent src' = packets_sent src"
    "bytes_received src' = bytes_received src" "bytes_sent src' = bytes_sent src"
    by (simp_all add: src' moved_from_def)
  from i have f: "fd src' = -1" "capture_thread src' = None" "running src' = False"
    by (simp_all add: inert_def)
  show ?thesis
    using dst keep f nt
    by (simp add: inert_operations [OF i] getPacketsReceived_def getPacketsSent_def getBytesReceived_def
        getBytesSent_def isRunning_def)
qed

text \<open>
  The amended C3 on \<open>tap0_sent\<close>, moved by the constructor and moved by assignment
  into \<open>tap0_up\<close>.
\<close>

theorem move_transfers_and_empties_source_witness:
  "(tap0_sent, tap0_sent\<lparr>name := [], capture_thread := None, fd := -1, running := False\<rparr>) =
     TunTapInterface_move_ctor [] tap0_sent \<and>
   move_assign_distinct [] tap0_up tap0_sent =
     Some (tap0_sent, tap0_sent\<lparr>name := [], capture_thread := None, fd := -1, running := False\<rparr>,
           [Close 3]) \<and>
   getPacketsSent tap0_sent = 1 \<and> isRunning tap0_sent \<and>
   isRunning (tap0_sent\<lparr>name := [], capture_thread := None, fd := -1, running := False\<rparr>) = False \<and>
   writePacket (tap0_sent\<lparr>name := [], capture_thread := None, fd := -1, running := False\<rparr>)
       [1, 2] (Written 2) =
     (False, tap0_sent\<lparr>name := [], capture_thread := None, fd := -1, running := False\<rparr>, []) \<and>
   TunTapInterface_dtor
     (tap0_sent\<lparr>name := [], capture_thread := None, fd := -1, running := False\<rparr>) = Some []"
proof -
  let ?src' = "tap0_sent\<lparr>name := [], capture_thread := None, fd := -1, running := False\<rparr>"
  have c: "(tap0_sent, ?src') = TunTapInterface_move_ctor [] tap0_sent"
    by (simp add: TunTapInterface_move_ctor_def moved_from_def tap0_sent_def)
  have a: "move_assign_distinct [] tap0_up tap0_sent = Some (tap0_sent, ?src', [Close 3])"
    by (simp add: move_assign_distinct_def moved_from_def tap0_sent_def tap0_up_def
        stopCapture_def release_thread_def)
  have v: "getPacketsSent tap0_sent = 1" "isRunning tap0_sent"
    by (simp_all add: getPacketsSent_def isRunning_def tap0_sent_def)
  from c have h1: "(tap0_sent, ?src') = TunTapInterface_move_ctor [] tap0_sent \<or>
      (\<exists>ev. move_assign_distinct [] tap0_up tap0_sent = Some (tap0_sent, ?src', ev))"
    by (rule disjI1)
  from a have h2: "(tap0_sent, ?src') = TunTapInterface_move_ctor [] tap0_sent \<or>
      (\<exists>ev. move_assign_distinct [] tap0_up tap0_sent = Some (tap0_sent, ?src', ev))"
    by blast
  from move_transfers_and_empties_source [OF h1, of drop_handler "[1, 2]" "Written 2" tap0_env]
    move_transfers_and_empties_source [OF h2, of drop_handler "[1, 2]" "Written 2" tap0_env]
    c a v
  show ?thesis by simp
qed

subsection \<open>A failed initialize\<close>

text \<open>
  Claim C4 holds of the specification and fails on the code. A newly constructed
  interface with an empty name is initialized; the kernel opens descriptor 3 and creates
  the device \<^verbatim>\<open>tap0\<close>, and \<^verbatim>\<open>fcntl(fd, F_GETFL)\<close> then
  fails. \<^verbatim>\<open>initialize\<close> returns false with the descriptor closed and
  \<open>fd = -1\<close>, but the name of the interface is now \<^verbatim>\<open>tap0\<close>: the
  code assigns \<^verbatim>\<open>name_\<close> before the last step that can fail, and the
  failure branch of that step undoes the descriptor only. The two earlier failure
  branches leave the name as it was.
\<close>

theorem initialize_failure_keeps_kernel_name:
  "initialize (TunTapInterface_ctor [] TAP) tap0_getfl_fails_env =
     (False,
      (TunTapInterface_ctor [] TAP)\<lparr>name := ''tap0''\<rparr>,
      [Open_dev_net_tun, Ioctl_TUNSETIFF 3 [] [IFF_TAP, IFF_NO_PI], Fcntl_GETFL 3,
       Cerr_errno ''Failed to set non-blocking mode: '' 9, Close 3]) \<and>
   getName (fst (snd (initialize (TunTapInterface_ctor [] TAP) tap0_getfl_fails_env))) \<noteq>
     getName (TunTapInterface_ctor [] TAP)"
  by (simp add: initialize_def TunTapInterface_ctor_def tap0_getfl_fails_env_def getName_def Let_def)

subsection \<open>startCapture twice\<close>

text \<open>
  Claim C5, as stated, fails on the code: a second \<^verbatim>\<open>startCapture\<close> can
  succeed with no \<^verbatim>\<open>stopCapture\<close> in between. Capture is started on
  \<open>tap0_up\<close>; the running object is then moved from, which leaves it with
  \<open>fd = -1\<close> and \<^verbatim>\<open>running_ = false\<close>, and initialized again (the
  kernel gives it the device \<^verbatim>\<open>tap1\<close> on descriptor 4). The next
  \<^verbatim>\<open>startCapture\<close> on it returns true and spawns a thread.
\<close>

theorem second_startCapture_after_move_counterexample:
  "startCapture tap0_up drop_handler =
     Some (True, tap0_running,
           [Thread_spawn, Cout ''Started packet capture on interface tap0'']) \<and>
   Call StopCapture \<notin> set [MovedFrom [], Call (Initialize tap1_env)] \<and>
   run_life [MovedFrom [], Call (Initialize tap1_env)] tap0_running = Some tap1_up \<and>
   startCapture tap1_up drop_handler =
     Some (True, tap1_up\<lparr>running := True, capture_thread := Some (Thread drop_handler True)\<rparr>,
           [Thread_spawn, Cout ''Started packet capture on interface tap1''])"
  by (simp add: startCapture_def release_thread_def tap0_up_def tap0_running_def
      tap1_up_def tap1_env_def moved_from_def initialize_def Let_def)

text \<open>
  Claim C5, amended. Once \<^verbatim>\<open>startCapture\<close> has succeeded on an interface,
  and whatever the program and the capture thread then do with it short of
  \<^verbatim>\<open>stopCapture\<close> and short of moving from it or assigning to it by a move
  (\<open>ops\<close>: initializing, configuring, writing packets, turns of the capture loop,
  further attempts to start), a call of \<^verbatim>\<open>startCapture\<close> returns false,
  leaves the object as it is and spawns no thread: its only effect is a line on
  \<^verbatim>\<open>std::cerr\<close>. The interface is still running and still owns the one
  thread of the first call, with the first handler. In any state at all,
  \<^verbatim>\<open>startCapture\<close> spawns a thread exactly when it returns true, which is
  exactly when the object holds a device and is not running.
\<close>

theorem second_startCapture_fails_unless_moved:
  assumes "startCapture s h = Some (True, s1, ev1)"
    and "\<forall>x\<in>set ops. keeps_capture x"
    and "run_life ops s1 = Some s2"
  shows "startCapture s2 h' =
           Some (False, s2,
                 [Cerr (if fd s2 < 0 then ''Cannot start capture: interface not initialized''
                        else ''Capture already running'')]) \<and>
         Thread_spawn \<notin> set (snd (snd (the (startCapture s2 h')))) \<and>
         isRunning s2 \<and> capture_thread s2 = Some (Thread h True) \<and>
         (startCapture s3 h' = Some (ok, s4, ev4) \<longrightarrow>
            (Thread_spawn \<in> set ev4) = ok \<and> ok = (0 \<le> fd s3 \<and> \<not> isRunning s3))"
proof -
  from startCapture_Some(1) [OF assms(1)] have
    s1: "running s1" "capture_thread s1 = Some (Thread h True)" by simp_all
  from run_life_keeps_capture [OF assms(3) assms(2) s1(1)] s1(2)
  have s2: "running s2" "capture_thread s2 = Some (Thread h True)" by simp_all
  have "(Thread_spawn \<in> set ev4) = ok \<and> ok = (0 \<le> fd s3 \<and> \<not> isRunning s3)"
    if "startCapture s3 h' = Some (ok, s4, ev4)"
    using startCapture_spawns_iff [OF that] by (simp add: isRunning_def)
  with startCapture_running [OF s2(1), of h'] s2 show ?thesis
    by (simp add: isRunning_def)
qed

text \<open>
  The amended C5 on \<open>tap0_up\<close>: capture is started, a packet is written and the
  loop takes a turn, and a second start is refused.
\<close>

theorem second_startCapture_fails_unless_moved_witness:
  "startCapture tap0_up drop_handler =
     Some (True, tap0_running,
           [Thread_spawn, Cout ''Started packet capture on interface tap0'']) \<and>
   keeps_capture (Call (WritePacket [1, 2, 3, 4] (Written 4))) \<and>
   keeps_capture (Call (CaptureTurn [0, 0] (ReadBytes []))) \<and>
   run_life [Call (WritePacket [1, 2, 3, 4] (Written 4)), Call (CaptureTurn [0, 0] (ReadBytes []))]
       tap0_running = Some tap0_sent \<and>
   startCapture tap0_sent throw_int_handler =
     Some (False, tap0_sent, [Cerr ''Capture already running'']) \<and>
   capture_thread tap0_sent = Some (Thread drop_handler True)"
proof -
  have a: "startCapture tap0_up drop_handler =
     Some (True, tap0_running,
           [Thread_spawn, Cout ''Started packet capture on interface tap0''])"
    by (simp add: startCapture_def release_thread_def tap0_up_def tap0_running_def)
  have b: "\<forall>x\<in>set [Call (WritePacket [1, 2, 3, 4] (Written 4)),
                     Call (CaptureTurn [0, 0] (ReadBytes []))]. keeps_capture x"
    by simp
  have c: "run_life [Call (WritePacket [1, 2, 3, 4] (Written 4)),
                     Call (CaptureTurn [0, 0] (ReadBytes []))] tap0_running = Some tap0_sent"
    by (simp add: writePacket_def sys_write_def capture_body_def sys_read_def
        tap0_running_def tap0_sent_def)
  have f: "\<not> fd tap0_sent < 0" by (simp add: tap0_sent_def)
  from second_startCapture_fails_unless_moved [OF a b c, of throw_int_handler] a b c f
  show ?thesis by simp
qed

subsection \<open>Exceptions of the handler\<close>

text \<open>
  Claim C6, as stated, fails on the code: not every fault of the handler is caught. The
  loop catches \<^verbatim>\<open>const std::exception&\<close> and nothing else. With a handler
  whose body is \<^verbatim>\<open>throw 42;\<close> the first packet ends the thread function
  by an exception that nothing catches: the handler is called once, one read is made,
  and the second packet is never read.
\<close>

theorem foreign_exception_ends_loop_counterexample:
  "fst (captureThreadFunc tap0_running throw_int_handler [ReadBytes [1], ReadBytes [2]]) = Uncaught \<and>
   handler_calls (snd (snd (captureThreadFunc tap0_running throw_int_handler
      [ReadBytes [1], ReadBytes [2]]))) = [[1]] \<and>
   reads_done (snd (snd (captureThreadFunc tap0_running throw_int_handler
      [ReadBytes [1], ReadBytes [2]]))) = 1"
  by (simp add: captureThreadFunc_def capture_body_def sys_read_def buffer_size_def
      throw_int_handler_def tap0_running_def)

text \<open>
  Claim C6, amended. For every handler, and every fault it raises that is an exception
  of a class derived from \<^verbatim>\<open>std::exception\<close>: the turn counts its packet,
  writes the exception's text to \<^verbatim>\<open>std::cerr\<close> and gives control back to
  the loop, which goes on with the reads that follow; this holds whatever the handler
  does on other packets. And a run of the loop on a running interface in which no packet
  handed to the handler made it throw an exception of another kind makes every one of
  its reads and is still turning at the end.
\<close>

theorem std_exception_is_absorbed:
  "(stored = take (length buffer) bs \<and> stored \<noteq> [] \<and>
    h stored = ThrowsStdException what \<longrightarrow>
      capture_body h (ReadBytes bs) buffer s =
        (True, stored @ drop (length stored) buffer,
         s\<lparr>packets_received := packets_received s + 1,
           bytes_received := bytes_received s + of_nat (length stored)\<rparr>,
         [Read (fd s) (length buffer), Handler_call stored,
          Cerr (''Exception in packet handler: '' @ what)]) \<and>
      (running s \<longrightarrow>
         capture_loop h (ReadBytes bs # rds) buffer s =
           (case capture_loop h rds (stored @ drop (length stored) buffer)
                   (s\<lparr>packets_received := packets_received s + 1,
                      bytes_received := bytes_received s + of_nat (length stored)\<rparr>) of
              (st, s', ev) \<Rightarrow>
                (st, s',
                 [Read (fd s) (length buffer), Handler_call stored,
                  Cerr (''Exception in packet handler: '' @ what)] @ ev)))) \<and>
   (running s \<and>
    (\<forall>pkt\<in>set (handler_calls (snd (snd (capture_loop h rds buffer s)))).
        h pkt \<noteq> ThrowsOther) \<longrightarrow>
      fst (capture_loop h rds buffer s) = Spinning \<and>
      reads_done (snd (snd (capture_loop h rds buffer s))) = length rds)"
proof -
  have body: "capture_body h (ReadBytes bs) buffer s =
        (True, stored @ drop (length stored) buffer,
         s\<lparr>packets_received := packets_received s + 1,
           bytes_received := bytes_received s + of_nat (length stored)\<rparr>,
         [Read (fd s) (length buffer), Handler_call stored,
          Cerr (''Exception in packet handler: '' @ what)])"
    if "stored = take (length buffer) bs" "stored \<noteq> []" "h stored = ThrowsStdException what"
    using that
    by (auto simp: capture_body_def sys_read_def Let_def take_min_length)
  show ?thesis
    using body capture_loop_survives [of s h rds buffer]
    by (auto split: prod.splits)
qed

text \<open>
  The amended C6 with \<open>mixed_handler\<close>, which throws
  \<^verbatim>\<open>std::runtime_error("boom")\<close> on the two packets read here and would
  throw an \<^verbatim>\<open>int\<close> on another one: both packets are read and handed
  over.
\<close>

theorem std_exception_is_absorbed_witness:
  "[1] = take (length [0, 0 :: uint8_t]) [1 :: uint8_t] \<and>
   mixed_handler [1] = ThrowsStdException ''boom'' \<and> mixed_handler [9] = ThrowsOther \<and>
   running tap0_running \<and>
   capture_loop mixed_handler [ReadBytes [1], ReadBytes [2]] [0, 0] tap0_running =
     (Spinning, tap0_running\<lparr>packets_received := 2, bytes_received := 2\<rparr>,
      [Read 3 2, Handler_call [1], Cerr ''Exception in packet handler: boom'',
       Read 3 2, Handler_call [2], Cerr ''Exception in packet handler: boom'']) \<and>
   handler_calls (snd (snd (capture_loop mixed_handler [ReadBytes [1], ReadBytes [2]] [0, 0]
      tap0_running))) = [[1], [2]] \<and>
   mixed_handler [2] \<noteq> ThrowsOther \<and>
   reads_done (snd (snd (capture_loop mixed_handler [ReadBytes [1], ReadBytes [2]] [0, 0]
      tap0_running))) = 2"
proof -
  have c: "capture_loop mixed_handler [ReadBytes [1], ReadBytes [2]] [0, 0] tap0_running =
     (Spinning, tap0_running\<lparr>packets_received := 2, bytes_received := 2\<rparr>,
      [Read 3 2, Handler_call [1], Cerr ''Exception in packet handler: boom'',
       Read 3 2, Handler_call [2], Cerr ''Exception in packet handler: boom''])"
    by (simp add: capture_body_def sys_read_def mixed_handler_def tap0_running_def)
  have m: "mixed_handler [1] = ThrowsStdException ''boom''" "mixed_handler [9] = ThrowsOther"
    "mixed_handler [2] \<noteq> ThrowsOther"
    by (simp_all add: mixed_handler_def)
  have b: "running tap0_running" by (simp add: tap0_running_def)
  from std_exception_is_absorbed
    [where stored = "[1]" and buffer = "[0, 0]" and bs = "[1]" and h = mixed_handler
       and what = "''boom''" and s = tap0_running and rds = "[ReadBytes [1], ReadBytes [2]]"]
    c m b
  show ?thesis by simp
qed

subsection \<open>Counters over the life of an interface\<close>

text \<open>
  Claim C7, as stated, fails on the code: move assignment overwrites the four counters
  of the object assigned to with those of the source. Assigning a newly constructed
  interface to \<open>tap0_sent\<close>, which has sent one packet of four bytes, takes its sent
  counters from 1 and 4 back to 0.
\<close>

theorem move_assignment_resets_counters_counterexample:
  "move_assign_distinct [] tap0_sent (TunTapInterface_ctor ''tap1'' TAP) \<noteq> None \<and>
   getPacketsSent tap0_sent = 1 \<and> getBytesSent tap0_sent = 4 \<and>
   getPacketsSent (fst (the (move_assign_distinct [] tap0_sent (TunTapInterface_ctor ''tap1'' TAP)))) = 0 \<and>
   getBytesSent (fst (the (move_assign_distinct [] tap0_sent (TunTapInterface_ctor ''tap1'' TAP)))) = 0"
  by (simp add: move_assign_distinct_def stopCapture_def release_thread_def tap0_sent_def
      TunTapInterface_ctor_def getPacketsSent_def getBytesSent_def moved_from_def)

text \<open>
  Claim C7, amended. Every operation on an interface other than being assigned to by a
  move, that is \<^verbatim>\<open>initialize\<close>, \<^verbatim>\<open>configure\<close>,
  \<^verbatim>\<open>startCapture\<close>, \<^verbatim>\<open>stopCapture\<close>,
  \<^verbatim>\<open>writePacket\<close> and a turn of its capture loop, leaves each of the four
  counters unchanged or larger, as long as no counter wraps around at \<open>2 ^ 64\<close>
  (\<open>no_wrap\<close>); and being moved from leaves the four counters as they were.
\<close>

theorem counters_grow_outside_move_assignment:
  assumes "apply_op x s = Some s'" and "no_wrap x s"
  shows "unat (getPacketsReceived s) \<le> unat (getPacketsReceived s') \<and>
         unat (getPacketsSent s) \<le> unat (getPacketsSent s') \<and>
         unat (getBytesReceived s) \<le> unat (getBytesReceived s') \<and>
         unat (getBytesSent s) \<le> unat (getBytesSent s') \<and>
         getPacketsReceived (moved_from residue s) = getPacketsReceived s \<and>
         getPacketsSent (moved_from residue s) = getPacketsSent s \<and>
         getBytesReceived (moved_from residue s) = getBytesReceived s \<and>
         getBytesSent (moved_from residue s) = getBytesSent s"
proof -
  have mono: "unat (packets_received s) \<le> unat (packets_received s') \<and>
         unat (packets_sent s) \<le> unat (packets_sent s') \<and>
         unat (bytes_received s) \<le> unat (bytes_received s') \<and>
         unat (bytes_sent s) \<le> unat (bytes_sent s')"
  proof (cases x)
    case (Initialize env)
    with assms(1) have "s' = fst (snd (initialize s env))" by simp
    then show ?thesis by (simp add: initialize_frame)
  next
    case (Configure ip_address netmask env)
    with assms(1) have "s' = s" by (simp add: configure_frame)
    then show ?thesis by simp
  next
    case (StartCapture h)
    with assms(1) obtain ok ev where "startCapture s h = Some (ok, s', ev)"
      by (cases "startCapture s h") auto
    from startCapture_Some(1) [OF this] show ?thesis by (cases ok) simp_all
  next
    case StopCapture
    with assms(1) have "s' = fst (stopCapture s)" by simp
    then show ?thesis by (simp add: stopCapture_frame)
  next
    case (WritePacket pkt wr)
    with assms(1) obtain ok ev where w: "writePacket s pkt wr = (ok, s', ev)"
      by (cases "writePacket s pkt wr") auto
    from writePacket_frame [OF w] obtain n where n: "n \<le> length pkt"
      "s' = s\<lparr>packets_sent := packets_sent s + (if ok then 1 else 0),
              bytes_sent := bytes_sent s + of_nat n\<rparr>"
      by blast
    from assms(2) WritePacket have nw:
      "unat (packets_sent s) + 1 < 2 ^ 64" "unat (bytes_sent s) + length pkt < 2 ^ 64"
      by (simp_all add: no_wrap_def)
    from unat_le_add_if [OF nw(1), of True] unat_le_add_of_nat [OF nw(2) n(1)] n(2)
    show ?thesis by simp
  next
    case (CaptureTurn buffer rd)
    with assms(1) capture_turn_frame obtain n where n: "n \<le> length buffer"
      "s' = s\<lparr>packets_received := packets_received s + (if n = 0 then 0 else 1),
             bytes_received := bytes_received s + of_nat n\<rparr>"
      by blast
    from assms(2) CaptureTurn have nw:
      "unat (packets_received s) + 1 < 2 ^ 64" "unat (bytes_received s) + length buffer < 2 ^ 64"
      by (simp_all add: no_wrap_def)
    from unat_le_add_if [OF nw(1), of True] unat_le_add_of_nat [OF nw(2) n(1)] n(2)
    show ?thesis by simp
  qed
  then show ?thesis
    by (simp add: getPacketsReceived_def getPacketsSent_def getBytesReceived_def
        getBytesSent_def moved_from_def)
qed

text \<open>
  The amended C7 on \<open>tap0_running\<close> and a packet of four bytes written whole.
\<close>

theorem counters_grow_outside_move_assignment_witness:
  "apply_op (WritePacket [1, 2, 3, 4] (Written 4)) tap0_running = Some tap0_sent \<and>
   no_wrap (WritePacket [1, 2, 3, 4] (Written 4)) tap0_running \<and>
   unat (getPacketsSent tap0_running) \<le> unat (getPacketsSent tap0_sent) \<and>
   unat (getBytesSent tap0_running) \<le> unat (getBytesSent tap0_sent) \<and>
   unat (getPacketsSent tap0_sent) = 1 \<and> unat (getBytesSent tap0_sent) = 4"
proof -
  have a: "apply_op (WritePacket [1, 2, 3, 4] (Written 4)) tap0_running = Some tap0_sent"
    by (simp add: writePacket_def sys_write_def tap0_running_def tap0_sent_def)
  have n: "no_wrap (WritePacket [1, 2, 3, 4] (Written 4)) tap0_running"
    by (simp add: no_wrap_def tap0_running_def)
  have v: "unat (getPacketsSent tap0_sent) = 1" "unat (getBytesSent tap0_sent) = 4"
    by (simp_all add: getPacketsSent_def getBytesSent_def tap0_sent_def)
  from counters_grow_outside_move_assignment [OF a n] a n v show ?thesis by simp
qed

subsection \<open>stopCapture twice\<close>

text \<open>
  Claim C8. \<^verbatim>\<open>stopCapture\<close> on an interface that is not running
  returns the object as it is and has no effect; and, whatever the object, a second call
  right after a first one returns the object the first call left and has no effect, so
  that the state after two calls is the state after one.
\<close>

theorem stopCapture_idempotent:
  "(\<not> isRunning s \<longrightarrow> stopCapture s = (s, [])) \<and>
   stopCapture (fst (stopCapture s)) = (fst (stopCapture s), [])"
  by (simp add: stopCapture_def isRunning_def split: option.splits)

text \<open>
  The theorem of C8 on \<open>tap0_up\<close>, which is not running, and on
  \<open>tap0_running\<close>, which the first call stops.
\<close>

theorem stopCapture_idempotent_witness:
  "\<not> isRunning tap0_up \<and> stopCapture tap0_up = (tap0_up, []) \<and>
   fst (stopCapture tap0_running) = tap0_up \<and>
   snd (stopCapture tap0_running) = [Thread_join, Cout ''Stopped packet capture on interface tap0''] \<and>
   stopCapture (fst (stopCapture tap0_running)) = (tap0_up, [])"
  using stopCapture_idempotent [of tap0_up] stopCapture_idempotent [of tap0_running]
  by (simp add: stopCapture_def isRunning_def tap0_up_def tap0_running_def)

subsection \<open>writePacket refused\<close>

text \<open>
  Claim C9. On an interface that holds no device (\<open>fd < 0\<close>) or is not running
  (never started, or stopped), \<^verbatim>\<open>writePacket\<close> returns false, leaves the
  object, and so its four counters, unchanged, and writes nothing.
\<close>

theorem writePacket_refused:
  "fd s < 0 \<or> \<not> isRunning s \<Longrightarrow> writePacket s pkt wr = (False, s, [])"
  by (auto simp: writePacket_def isRunning_def)

text \<open>
  The theorem of C9 on a newly constructed interface and on \<open>tap0_up\<close>,
  initialized and not running.
\<close>

theorem writePacket_refused_witness:
  "(fd (TunTapInterface_ctor ''tap0'' TAP) < 0 \<or> \<not> isRunning (TunTapInterface_ctor ''tap0'' TAP)) \<and>
   writePacket (TunTapInterface_ctor ''tap0'' TAP) [1, 2, 3] (Written 3) =
     (False, TunTapInterface_ctor ''tap0'' TAP, []) \<and>
   (fd tap0_up < 0 \<or> \<not> isRunning tap0_up) \<and>
   writePacket tap0_up [1, 2, 3] (Written 3) = (False, tap0_up, [])"
  using writePacket_refused [of "TunTapInterface_ctor ''tap0'' TAP" "[1, 2, 3]" "Written 3"]
    writePacket_refused [of tap0_up "[1, 2, 3]" "Written 3"]
  by (simp add: TunTapInterface_ctor_def tap0_up_def isRunning_def)

subsection \<open>A read of zero bytes\<close>

text \<open>
  Claim C10. When the read of a turn returns 0, the turn calls no handler and changes no
  field of the object, counters included: it sleeps one millisecond and control goes
  back to the loop, which goes on with the next read. And in no run of the loop is the
  handler called with an empty vector.
\<close>

theorem zero_read_is_idle:
  "(fst (sys_read buffer rd) = 0 \<longrightarrow>
      capture_body h rd buffer s =
        (True, buffer, s, [Read (fd s) (length buffer), Sleep_ms 1]) \<and>
      (running s \<longrightarrow>
         capture_loop h (rd # rds) buffer s =
           (case capture_loop h rds buffer s of
              (st, s', ev) \<Rightarrow> (st, s', [Read (fd s) (length buffer), Sleep_ms 1] @ ev)))) \<and>
   [] \<notin> set (handler_calls (snd (snd (capture_loop h rds buffer s))))"
proof -
  have "[] \<notin> set (handler_calls (snd (snd (capture_loop h rds buffer s))))"
    using capture_loop_frame [of h rds buffer s] by (metis prod.collapse)
  moreover have "capture_body h rd buffer s =
        (True, buffer, s, [Read (fd s) (length buffer), Sleep_ms 1])"
    if "fst (sys_read buffer rd) = 0"
    using that by (simp add: capture_body_def sys_read_zero)
  ultimately show ?thesis by simp
qed

text \<open>
  The theorem of C10 on \<open>tap0_running\<close>: a read of zero bytes, then a packet of
  one byte.
\<close>

theorem zero_read_is_idle_witness:
  "fst (sys_read [0, 0, 0, 0] (ReadBytes [])) = 0 \<and> running tap0_running \<and>
   capture_body drop_handler (ReadBytes []) [0, 0, 0, 0] tap0_running =
     (True, [0, 0, 0, 0], tap0_running, [Read 3 4, Sleep_ms 1]) \<and>
   capture_loop drop_handler [ReadBytes [], ReadBytes [7]] [0, 0, 0, 0] tap0_running =
     (Spinning, tap0_running\<lparr>packets_received := 1, bytes_received := 1\<rparr>,
      [Read 3 4, Sleep_ms 1, Read 3 4, Handler_call [7]])"
  using zero_read_is_idle [of "[0, 0, 0, 0]" "ReadBytes []" drop_handler tap0_running "[ReadBytes [7]]"]
  by (simp add: sys_read_def capture_body_def tap0_running_def drop_handler_def)

end
